theory Spec2Isabelle
  imports Main "HOL-Library.Sublist"
begin

section \<open>Job Match AI: the chat transcript and the mock analysis of \<^verbatim>\<open>src/index.jsx\<close>\<close>

text \<open>
  The component \<^verbatim>\<open>App\<close> keeps ten state hooks and two asynchronous handlers,
  \<^verbatim>\<open>sendMessageToGemini\<close> (lines 44-105) and \<^verbatim>\<open>handleSubmit\<close> (lines 124-155).
  The hooks are one record; a handler is a function from the state to the new state.
  An \<^verbatim>\<open>async\<close> handler is cut at its \<^verbatim>\<open>await\<close>: the part that runs inside the
  call returns the new state together with the operation it started (if any), and the
  part that runs when the operation settles takes the outcome and the state of that
  moment. Exceptions are values of a sum type, so that \<^verbatim>\<open>try\<close>/\<^verbatim>\<open>catch\<close> is a case
  distinction.

  Modelling decisions, each visible in a definition below:
  \<^item> A JavaScript string is a \<open>string\<close>; a \<open>char\<close> stands for a UTF-16 code unit below
    256, so the white space that \<^verbatim>\<open>trim\<close> removes is the part of ECMAScript's
    WhiteSpace and LineTerminator in that range.
  \<^item> A property that may be missing (\<^verbatim>\<open>undefined\<close>) is an \<open>option\<close>. The body of an API
    response is typed by the shape the code reads
    (\<^verbatim>\<open>candidates[].content.parts[].text\<close>,
    \<^verbatim>\<open>candidates[].groundingMetadata.groundingAttributions[].web.{uri,title}\<close>): every
    property may be missing, and one that is present has the type of that shape.
  \<^item> \<^verbatim>\<open>new URL(u).hostname\<close> belongs to the platform, not to this repository: it is a
    parameter \<open>hostname\<close> of type \<open>string \<Rightarrow> string option\<close>, \<open>None\<close> where the
    constructor throws.
  \<^item> The callback \<^verbatim>\<open>sendMessageToGemini\<close> is created again whenever
    \<^verbatim>\<open>chatHistory\<close> changes (its dependency array, line 105), and \<^verbatim>\<open>handleSubmit\<close>
    whenever \<^verbatim>\<open>skillsText\<close> or \<^verbatim>\<open>resumeFile\<close> does (line 155): the values a call
    closes over are those of the state it is called in.
\<close>

subsection \<open>Strings\<close>

definition is_white_space :: "char \<Rightarrow> bool" where
  "is_white_space c =
     (c \<in> set [CHR 0x09, CHR 0x0A, CHR 0x0B, CHR 0x0C, CHR 0x0D, CHR 0x20, CHR 0xA0])"

text \<open>\<^verbatim>\<open>String.prototype.trim\<close>: white space is removed at both ends.\<close>

definition trim :: "string \<Rightarrow> string" where
  "trim s = rev (dropWhile is_white_space (rev (dropWhile is_white_space s)))"

text \<open>Truthiness of a value that is a string or \<^verbatim>\<open>undefined\<close>.\<close>

fun truthy :: "string option \<Rightarrow> bool" where
  "truthy None = False"
| "truthy (Some s) = (s \<noteq> [])"

text \<open>String conversion of such a value, as a template literal or \<^verbatim>\<open>new URL\<close> does it.\<close>

fun to_string :: "string option \<Rightarrow> string" where
  "to_string None = ''undefined''"
| "to_string (Some s) = s"

definition digit_char :: "nat \<Rightarrow> char" where
  "digit_char d = ''0123456789'' ! d"

text \<open>The decimal numeral of a natural number, as \<^verbatim>\<open>${i + 1}\<close> prints an index.\<close>

function nat_to_string :: "nat \<Rightarrow> string" where
  "nat_to_string n =
     (if n < 10 then [digit_char n] else nat_to_string (n div 10) @ [digit_char (n mod 10)])"
  by pat_completeness auto
termination
  by (relation "measure (\<lambda>n. n)") auto

text \<open>\<^verbatim>\<open>Array.prototype.join\<close> on strings.\<close>

fun join :: "string \<Rightarrow> string list \<Rightarrow> string" where
  "join sep [] = []"
| "join sep [x] = x"
| "join sep (x # y # ys) = x @ sep @ join sep (y # ys)"

subsection \<open>Data\<close>

text \<open>A grounding source \<^verbatim>\<open>{uri, title}\<close> (lines 83-86); also the shape of \<^verbatim>\<open>attribution.web\<close>.\<close>

record source =
  uri :: "string option"
  title :: "string option"

text \<open>
  A turn of the transcript. The greeting (line 28), the user turn (line 47) and the
  apology turn (line 101) are built without a \<^verbatim>\<open>sources\<close> property; the reply turn
  (line 97) has one.
\<close>

record turn =
  role :: string
  msg_text :: string
  sources :: "source list option"

text \<open>The state hooks of lines 18-31; a selected file is known by its name.\<close>

record app_state =
  skillsText :: string
  resumeFile :: "string option"
  recommendations :: "string list"
  skillsUsed :: string
  isLoading :: bool
  error :: "string option"
  isChatOpen :: bool
  chatHistory :: "turn list"
  chatInput :: string
  isChatLoading :: bool

definition greeting :: turn where
  "greeting = \<lparr>role = ''model'',
     msg_text = ''Hello! I'm Job Match AI's assistant. Ask me anything about career paths, job roles, or resume tips.'',
     sources = None\<rparr>"

definition initial_state :: app_state where
  "initial_state = \<lparr>skillsText = [], resumeFile = None, recommendations = [],
     skillsUsed = [], isLoading = False, error = None, isChatOpen = False,
     chatHistory = [greeting], chatInput = [], isChatLoading = False\<rparr>"

text \<open>The sources a rendered turn lists (lines 308-315): none when the property is missing.\<close>

fun sources_shown :: "turn \<Rightarrow> source list" where
  "sources_shown t = (case sources t of None \<Rightarrow> [] | Some ss \<Rightarrow> ss)"

subsection \<open>The request (lines 52-65)\<close>

record payload_content =
  c_role :: string
  c_parts :: "string list"

record payload =
  contents :: "payload_content list"
  tools :: "string list"
  systemInstruction :: "string list"

record request =
  req_url :: string
  req_method :: string
  req_headers :: "(string \<times> string) list"
  req_body :: payload

definition API_KEY :: string where
  "API_KEY = []"

definition API_URL :: string where
  "API_URL = ''https://generativelanguage.googleapis.com/v1beta/models/gemini-2.5-flash-preview-09-2025:generateContent?key='' @ API_KEY"

definition systemInstructionText :: string where
  "systemInstructionText = ''You are a helpful career guidance chatbot embedded in a Job Match AI application. You assist users with questions about their resume analysis, job roles, and career development. Be concise and use Google Search for up-to-date, real-time information.''"

definition build_payload :: "turn list \<Rightarrow> payload" where
  "build_payload newChatHistory =
     \<lparr>contents = map (\<lambda>msg. \<lparr>c_role = role msg, c_parts = [msg_text msg]\<rparr>) newChatHistory,
      tools = [''google_search''],
      systemInstruction = [systemInstructionText]\<rparr>"

definition build_request :: "turn list \<Rightarrow> request" where
  "build_request newChatHistory =
     \<lparr>req_url = API_URL, req_method = ''POST'',
      req_headers = [(''Content-Type'', ''application/json'')],
      req_body = build_payload newChatHistory\<rparr>"

subsection \<open>\<^verbatim>\<open>sendMessageToGemini\<close>, up to the \<^verbatim>\<open>await fetch\<close> (lines 44-65)\<close>

text \<open>
  The result is the state after the three setters and the request handed to \<^verbatim>\<open>fetch\<close>;
  \<open>None\<close> for the request is the early \<^verbatim>\<open>return\<close> of line 45.
\<close>

definition sendMessageToGemini :: "app_state \<Rightarrow> string \<Rightarrow> app_state \<times> request option" where
  "sendMessageToGemini s message =
     (if trim message = [] then (s, None)
      else
        let newChatHistory = chatHistory s @ [\<lparr>role = ''user'', msg_text = message, sources = None\<rparr>]
        in (s\<lparr>chatHistory := newChatHistory, chatInput := [], isChatLoading := True\<rparr>,
            Some (build_request newChatHistory)))"

subsection \<open>The response\<close>

text \<open>
  The parsed body, in the shape the code reads. \<open>part_text\<close> is the property
  \<^verbatim>\<open>text\<close> of a part, \<open>web\<close> the property \<^verbatim>\<open>web\<close> of an attribution.
\<close>

record part =
  part_text :: "string option"

record reply_content =
  parts :: "part list option"

record attribution =
  web :: "source option"

record grounding_metadata =
  groundingAttributions :: "attribution list option"

record candidate =
  content :: "reply_content option"
  groundingMetadata :: "grounding_metadata option"

record api_result =
  candidates :: "candidate list option"

text \<open>
  How the two awaits of lines 61 and 71 settle: \<^verbatim>\<open>fetch\<close> rejects (no response), or
  it resolves to a response with a status, whose \<^verbatim>\<open>json()\<close> either rejects (\<open>None\<close>:
  the body is not JSON) or resolves to the parsed body.
\<close>

datatype fetch_outcome = Rejected | Response nat "api_result option"

datatype js_exception = NetworkFailure | ApiStatus nat | JsonSyntax | InvalidURL string

text \<open>\<^verbatim>\<open>response.ok\<close>: the status is in the range 200-299.\<close>

definition response_ok :: "nat \<Rightarrow> bool" where
  "response_ok st = (200 \<le> st \<and> st \<le> 299)"

subsection \<open>Reply and citations (lines 72-95)\<close>

text \<open>\<^verbatim>\<open>result.candidates?.[0]\<close>\<close>

definition first_candidate :: "api_result \<Rightarrow> candidate option" where
  "first_candidate r =
     (case candidates r of None \<Rightarrow> None | Some [] \<Rightarrow> None | Some (c # _) \<Rightarrow> Some c)"

text \<open>\<^verbatim>\<open>candidate.content?.parts?.[0]?.text\<close>\<close>

definition first_text :: "candidate \<Rightarrow> string option" where
  "first_text c =
     (case content c of None \<Rightarrow> None
      | Some ct \<Rightarrow> (case parts ct of None \<Rightarrow> None | Some [] \<Rightarrow> None
                    | Some (p # _) \<Rightarrow> part_text p))"

text \<open>The callback of \<^verbatim>\<open>map\<close>, lines 83-86.\<close>

definition attribution_source :: "attribution \<Rightarrow> source" where
  "attribution_source a =
     (case web a of None \<Rightarrow> \<lparr>uri = None, title = None\<rparr>
      | Some w \<Rightarrow> \<lparr>uri = uri w, title = title w\<rparr>)"

text \<open>The callback of \<^verbatim>\<open>filter\<close>, line 87.\<close>

definition keeps :: "source \<Rightarrow> bool" where
  "keeps s = (truthy (uri s) \<and> truthy (title s))"

text \<open>Lines 80-88: what is assigned to \<^verbatim>\<open>sources\<close> inside the outer \<^verbatim>\<open>if\<close>.\<close>

definition grounding_sources :: "candidate \<Rightarrow> source list" where
  "grounding_sources c =
     (case groundingMetadata c of None \<Rightarrow> []
      | Some gm \<Rightarrow> (case groundingAttributions gm of None \<Rightarrow> []
                    | Some atts \<Rightarrow> filter keeps (map attribution_source atts)))"

definition fallback_text :: string where
  "fallback_text = ''Sorry, I couldn't get a clear response.''"

text \<open>Lines 72-89: the values of \<^verbatim>\<open>responseText\<close> and \<^verbatim>\<open>sources\<close> after the \<^verbatim>\<open>if\<close>.\<close>

definition extract_reply :: "api_result \<Rightarrow> string \<times> source list" where
  "extract_reply r =
     (case first_candidate r of None \<Rightarrow> (fallback_text, [])
      | Some c \<Rightarrow>
          if truthy (first_text c) then (to_string (first_text c), grounding_sources c)
          else (fallback_text, []))"

text \<open>One element of the \<^verbatim>\<open>map\<close> of line 94; \<open>i\<close> is the index, counted from 0.\<close>

definition citation_line :: "(string \<Rightarrow> string option) \<Rightarrow> nat \<Rightarrow> source \<Rightarrow> js_exception + string" where
  "citation_line hostname i s =
     (case hostname (to_string (uri s)) of
        None \<Rightarrow> Inl (InvalidURL (to_string (uri s)))
      | Some h \<Rightarrow> Inr (''['' @ nat_to_string (i + 1) @ ''] '' @ to_string (title s) @ '' ('' @ h @ '')''))"

text \<open>The \<^verbatim>\<open>map\<close> of line 94 from index \<open>i\<close> on: the first callback that throws ends it.\<close>

fun citation_lines :: "(string \<Rightarrow> string option) \<Rightarrow> nat \<Rightarrow> source list \<Rightarrow> js_exception + string list" where
  "citation_lines hostname i [] = Inr []"
| "citation_lines hostname i (s # ss) =
     (case citation_line hostname i s of
        Inl e \<Rightarrow> Inl e
      | Inr l \<Rightarrow> (case citation_lines hostname (Suc i) ss of
                    Inl e \<Rightarrow> Inl e
                  | Inr ls \<Rightarrow> Inr (l # ls)))"

definition sources_header :: string where
  "sources_header = ''\<newline>\<newline>**Sources:**\<newline>''"

text \<open>Lines 92-95: the value of \<^verbatim>\<open>fullResponse\<close>, or the exception thrown on the way.\<close>

definition full_response :: "(string \<Rightarrow> string option) \<Rightarrow> string \<Rightarrow> source list \<Rightarrow> js_exception + string" where
  "full_response hostname responseText srcs =
     (if length srcs > 0 then
        (case citation_lines hostname 0 srcs of
           Inl e \<Rightarrow> Inl e
         | Inr ls \<Rightarrow> Inr (responseText @ sources_header @ join ''\<newline>'' ls))
      else Inr responseText)"

subsection \<open>\<^verbatim>\<open>sendMessageToGemini\<close>, from the \<^verbatim>\<open>await fetch\<close> on (lines 61-104)\<close>

text \<open>The \<^verbatim>\<open>try\<close> block: the turn that line 97 appends, or the exception thrown before it.\<close>

definition try_block :: "(string \<Rightarrow> string option) \<Rightarrow> fetch_outcome \<Rightarrow> js_exception + turn" where
  "try_block hostname outcome =
     (case outcome of
        Rejected \<Rightarrow> Inl NetworkFailure
      | Response st body \<Rightarrow>
          if \<not> response_ok st then Inl (ApiStatus st)
          else (case body of
                  None \<Rightarrow> Inl JsonSyntax
                | Some r \<Rightarrow>
                    (case extract_reply r of
                       (responseText, srcs) \<Rightarrow>
                         (case full_response hostname responseText srcs of
                            Inl e \<Rightarrow> Inl e
                          | Inr fullResponse \<Rightarrow>
                              Inr \<lparr>role = ''model'', msg_text = fullResponse, sources = Some srcs\<rparr>))))"

definition apology_text :: string where
  "apology_text = ''Sorry, I hit an error connecting to the intelligence engine. Please try again.''"

definition apology_turn :: turn where
  "apology_turn = \<lparr>role = ''model'', msg_text = apology_text, sources = None\<rparr>"

text \<open>
  The rest of the call once the request has settled, on the state \<open>s\<close> of that moment
  (both updates of the transcript are functional updates on \<^verbatim>\<open>prev\<close>). The result is how
  the call's own promise settles: \<open>Inr\<close> the state it leaves, \<open>Inl\<close> an exception it lets
  through.
\<close>

definition sendMessageToGemini_settled :: "(string \<Rightarrow> string option) \<Rightarrow> fetch_outcome \<Rightarrow> app_state \<Rightarrow> js_exception + app_state" where
  "sendMessageToGemini_settled hostname outcome s =
     (case try_block hostname outcome of
        Inr t \<Rightarrow> Inr (s\<lparr>chatHistory := chatHistory s @ [t], isChatLoading := False\<rparr>)
      | Inl e \<Rightarrow> Inr (s\<lparr>chatHistory := chatHistory s @ [apology_turn], isChatLoading := False\<rparr>))"

subsection \<open>The mock analysis: \<^verbatim>\<open>handleSubmit\<close> (lines 124-155)\<close>

definition MOCK_RECOMMENDATIONS :: "string list" where
  "MOCK_RECOMMENDATIONS =
     [''1. Software Development Intern (Python/Database)'',
      ''2. Junior Backend Developer (SQL/MongoDB)'',
      ''3. Mid-Level Python Software Engineer'',
      ''4. Data Engineer (Database & ETL Focus)'',
      ''5. Senior Backend Engineer (Distributed Systems)'',
      ''6. Database Architect (MongoDB/SQL Optimization)'']"

definition MOCK_SKILLS_FROM_RESUME :: string where
  "MOCK_SKILLS_FROM_RESUME = ''Python, SQL, MongoDB, Database Management, CRUD application logic, Teamwork, Communication.''"

definition validation_message :: string where
  "validation_message = ''Please enter skills or select a file to begin the analysis.''"

text \<open>
  The timer of line 139 and what the suspended call keeps of its closure: the skills text,
  read again at lines 142-143.
\<close>

record analysis_timer =
  delay_ms :: nat
  closed_skillsText :: string

text \<open>Lines 126-139: up to the \<^verbatim>\<open>await\<close>; \<open>None\<close> for the timer is the \<^verbatim>\<open>return\<close> of line 132.\<close>

definition handleSubmit :: "app_state \<Rightarrow> app_state \<times> analysis_timer option" where
  "handleSubmit s =
     (let s1 = s\<lparr>error := None, recommendations := [], skillsUsed := []\<rparr>
      in if trim (skillsText s) = [] \<and> resumeFile s = None
         then (s1\<lparr>error := Some validation_message\<rparr>, None)
         else (s1\<lparr>isLoading := True\<rparr>,
               Some \<lparr>delay_ms = 2000, closed_skillsText = skillsText s\<rparr>))"

text \<open>
  Lines 141-153, when the timer fires. The promise of line 139 cannot reject and nothing
  after it throws, so the \<^verbatim>\<open>catch\<close> of lines 149-151 has no run.
\<close>

definition handleSubmit_settled :: "analysis_timer \<Rightarrow> app_state \<Rightarrow> app_state" where
  "handleSubmit_settled t s =
     (let combinedSkills =
            (if trim (closed_skillsText t) \<noteq> []
             then ''[From Textbox: '' @ trim (closed_skillsText t) @ ''] + [From Resume: ''
                    @ MOCK_SKILLS_FROM_RESUME @ '']''
             else MOCK_SKILLS_FROM_RESUME)
      in s\<lparr>recommendations := MOCK_RECOMMENDATIONS, skillsUsed := combinedSkills,
           isLoading := False\<rparr>)"

text \<open>Lines 113-122.\<close>

definition handleFileChange :: "string option \<Rightarrow> app_state \<Rightarrow> app_state" where
  "handleFileChange file s = s\<lparr>resumeFile := file\<rparr>"

definition handleRemoveFile :: "app_state \<Rightarrow> app_state" where
  "handleRemoveFile s = s\<lparr>resumeFile := None\<rparr>"

subsection \<open>The session: state, outstanding operations, events\<close>

text \<open>
  A session is the state of the hooks together with the requests whose \<^verbatim>\<open>fetch\<close> has
  not settled and the timers that have not fired.
\<close>

record session =
  app :: app_state
  in_flight :: "request list"
  timers :: "analysis_timer list"

definition initial_session :: session where
  "initial_session = \<lparr>app = initial_state, in_flight = [], timers = []\<rparr>"

definition remove_nth :: "nat \<Rightarrow> 'a list \<Rightarrow> 'a list" where
  "remove_nth i xs = take i xs @ drop (Suc i) xs"

text \<open>
  A call of \<^verbatim>\<open>sendMessageToGemini\<close> by any caller, in any state: the function is the
  whole of the operation, nothing of the rendered form takes part.
\<close>

definition submit :: "session \<Rightarrow> string \<Rightarrow> session" where
  "submit ss message =
     (case sendMessageToGemini (app ss) message of
        (s', None) \<Rightarrow> ss\<lparr>app := s'\<rparr>
      | (s', Some q) \<Rightarrow> ss\<lparr>app := s', in_flight := in_flight ss @ [q]\<rparr>)"

text \<open>
  The events of the rendered component (lines 161-387) and of its pending operations.
  \<open>FileChange\<close> carries the name of the first selected file, if any.
\<close>

datatype event =
    SkillsChange string
  | FileChange "string option"
  | RemoveFile
  | AnalyzeSubmit
  | TimerFires nat
  | OpenChat
  | CloseChat
  | ChatInputChange string
  | ChatSubmit
  | FetchSettles nat fetch_outcome

text \<open>
  One event on a session; \<open>None\<close> when the rendered component does not offer the event
  in that state:
  \<^item> the skills box and the file input are disabled while \<^verbatim>\<open>isLoading\<close> (lines 195, 218),
    and so is the button that submits the analysis form (line 242);
  \<^item> the button \<^verbatim>\<open>Remove File\<close> is rendered only when a file is selected (line 227);
  \<^item> the chat window is rendered only when \<^verbatim>\<open>isChatOpen\<close> (line 288), the button that
    opens it only when not (line 358);
  \<^item> the chat input is disabled while \<^verbatim>\<open>isChatLoading\<close> (line 340), and the button
    that submits the chat form while \<^verbatim>\<open>isChatLoading || !chatInput.trim()\<close> (line 349);
    the Enter key in the input submits through that button, so not while it is disabled;
  \<^item> a timer or a request settles only if it is outstanding.
  \<open>ChatSubmit\<close> is \<^verbatim>\<open>handleChatSubmit\<close> (lines 107-110): it passes \<^verbatim>\<open>chatInput\<close>.
\<close>

fun step :: "(string \<Rightarrow> string option) \<Rightarrow> event \<Rightarrow> session \<Rightarrow> session option" where
  "step hostname (SkillsChange v) ss =
     (if isLoading (app ss) then None
      else Some (ss\<lparr>app := (app ss)\<lparr>skillsText := v\<rparr>\<rparr>))"
| "step hostname (FileChange file) ss =
     (if isLoading (app ss) then None
      else Some (ss\<lparr>app := handleFileChange file (app ss)\<rparr>))"
| "step hostname RemoveFile ss =
     (if resumeFile (app ss) = None then None
      else Some (ss\<lparr>app := handleRemoveFile (app ss)\<rparr>))"
| "step hostname AnalyzeSubmit ss =
     (if isLoading (app ss) then None
      else (case handleSubmit (app ss) of
              (s', None) \<Rightarrow> Some (ss\<lparr>app := s'\<rparr>)
            | (s', Some t) \<Rightarrow> Some (ss\<lparr>app := s', timers := timers ss @ [t]\<rparr>)))"
| "step hostname (TimerFires i) ss =
     (if i < length (timers ss)
      then Some (ss\<lparr>app := handleSubmit_settled (timers ss ! i) (app ss),
                     timers := remove_nth i (timers ss)\<rparr>)
      else None)"
| "step hostname OpenChat ss =
     (if isChatOpen (app ss) then None
      else Some (ss\<lparr>app := (app ss)\<lparr>isChatOpen := True\<rparr>\<rparr>))"
| "step hostname CloseChat ss =
     (if isChatOpen (app ss) then Some (ss\<lparr>app := (app ss)\<lparr>isChatOpen := False\<rparr>\<rparr>)
      else None)"
| "step hostname (ChatInputChange v) ss =
     (if isChatOpen (app ss) \<and> \<not> isChatLoading (app ss)
      then Some (ss\<lparr>app := (app ss)\<lparr>chatInput := v\<rparr>\<rparr>)
      else None)"
| "step hostname ChatSubmit ss =
     (if isChatOpen (app ss) \<and> \<not> (isChatLoading (app ss) \<or> trim (chatInput (app ss)) = [])
      then Some (submit ss (chatInput (app ss)))
      else None)"
| "step hostname (FetchSettles i outcome) ss =
     (if i < length (in_flight ss)
      then (case sendMessageToGemini_settled hostname outcome (app ss) of
              Inr s' \<Rightarrow> Some (ss\<lparr>app := s', in_flight := remove_nth i (in_flight ss)\<rparr>)
            | Inl e \<Rightarrow> Some (ss\<lparr>in_flight := remove_nth i (in_flight ss)\<rparr>))
      else None)"

fun run :: "(string \<Rightarrow> string option) \<Rightarrow> event list \<Rightarrow> session \<Rightarrow> session option" where
  "run hostname [] ss = Some ss"
| "run hostname (e # es) ss =
     (case step hostname e ss of None \<Rightarrow> None | Some ss' \<Rightarrow> run hostname es ss')"

text \<open>
  Calls of \<^verbatim>\<open>sendMessageToGemini\<close> one after the other, each with the outcome of its
  request, the next call made after the one before has finished.
\<close>

fun submit_rounds :: "(string \<Rightarrow> string option) \<Rightarrow> (string \<times> fetch_outcome) list \<Rightarrow> app_state \<Rightarrow> js_exception + app_state" where
  "submit_rounds hostname [] s = Inr s"
| "submit_rounds hostname ((message, outcome) # rs) s =
     (case sendMessageToGemini s message of
        (s1, None) \<Rightarrow> submit_rounds hostname rs s1
      | (s1, Some q) \<Rightarrow>
          (case sendMessageToGemini_settled hostname outcome s1 of
             Inl e \<Rightarrow> Inl e
           | Inr s2 \<Rightarrow> submit_rounds hostname rs s2))"

subsection \<open>Sample inputs\<close>

text \<open>
  An instance of the parameter \<open>hostname\<close> for evaluating the definitions on concrete
  inputs. It is not the platform's parser: it returns the host of a string
  \<^verbatim>\<open>https://host/...\<close> and nothing for any other string, which is what \<^verbatim>\<open>new URL\<close>
  does on the strings used below (\<^verbatim>\<open>https://example.com/jobs\<close>,
  \<^verbatim>\<open>https://careers.example.org/\<close>; \<^verbatim>\<open>new URL("not a url")\<close> throws).
\<close>

definition sample_hostname :: "string \<Rightarrow> string option" where
  "sample_hostname u =
     (let h = takeWhile (\<lambda>c. c \<noteq> CHR ''/'') (drop 8 u)
      in if take 8 u = ''https://'' \<and> h \<noteq> [] then Some h else None)"

definition sample_metadata :: "source list \<Rightarrow> grounding_metadata" where
  "sample_metadata ws = \<lparr>groundingAttributions = Some (map (\<lambda>w. \<lparr>web = Some w\<rparr>) ws)\<rparr>"

definition sample_candidate :: "string option \<Rightarrow> source list \<Rightarrow> candidate" where
  "sample_candidate t ws =
     \<lparr>content = Some \<lparr>parts = Some [\<lparr>part_text = t\<rparr>]\<rparr>,
      groundingMetadata = Some (sample_metadata ws)\<rparr>"

definition sample_result :: "string option \<Rightarrow> source list \<Rightarrow> api_result" where
  "sample_result t ws = \<lparr>candidates = Some [sample_candidate t ws]\<rparr>"

definition src_jobs :: source where
  "src_jobs = \<lparr>uri = Some ''https://example.com/jobs'', title = Some ''Jobs''\<rparr>"

definition src_careers :: source where
  "src_careers = \<lparr>uri = Some ''https://careers.example.org/'', title = Some ''Careers''\<rparr>"

definition src_bad_uri :: source where
  "src_bad_uri = \<lparr>uri = Some ''not a url'', title = Some ''Guide''\<rparr>"

definition src_no_title :: source where
  "src_no_title = \<lparr>uri = Some ''https://example.com/x'', title = Some []\<rparr>"

text \<open>The session after the form has sent \<^verbatim>\<open>hi\<close>: one request is in flight.\<close>

definition session_hi :: session where
  "session_hi = submit (initial_session\<lparr>app := initial_state\<lparr>isChatOpen := True, chatInput := ''hi''\<rparr>\<rparr>) ''hi''"

text \<open>A state that shows the result of an earlier analysis and an earlier error.\<close>

definition analysed_state :: app_state where
  "analysed_state = initial_state\<lparr>recommendations := MOCK_RECOMMENDATIONS,
     skillsUsed := MOCK_SKILLS_FROM_RESUME, error := Some ''old''\<rparr>"

text \<open>
  Replies: text with three attributions, one of them without a title; text with one
  attribution, which has no title; text with a good attribution and one whose uri is no
  URL; text with only such an attribution; two good attributions and no text.
\<close>

definition reply_two_of_three :: api_result where
  "reply_two_of_three = sample_result (Some ''Hello'') [src_jobs, src_no_title, src_careers]"

definition reply_none_kept :: api_result where
  "reply_none_kept = sample_result (Some ''Hello'') [src_no_title]"

definition reply_good_and_bad :: api_result where
  "reply_good_and_bad = sample_result (Some ''Hello'') [src_jobs, src_bad_uri]"

definition reply_bad_only :: api_result where
  "reply_bad_only = sample_result (Some ''Apply early.'') [src_bad_uri]"

definition reply_no_text :: api_result where
  "reply_no_text = sample_result None [src_jobs, src_careers]"

section \<open>Properties\<close>

subsection \<open>White space\<close>

lemma dropWhile_all_iff: "(\<forall>x\<in>set (dropWhile P xs). P x) \<longleftrightarrow> (\<forall>x\<in>set xs. P x)"
  by (induction xs) auto

lemma trim_Nil_iff: "trim s = [] \<longleftrightarrow> (\<forall>c\<in>set s. is_white_space c)"
proof -
  have "trim s = [] \<longleftrightarrow> (\<forall>c\<in>set (rev (dropWhile is_white_space s)). is_white_space c)"
    by (simp add: trim_def)
  also have "\<dots> \<longleftrightarrow> (\<forall>c\<in>set s. is_white_space c)"
    by (simp add: dropWhile_all_iff)
  finally show ?thesis .
qed

subsection \<open>A blank message\<close>

text \<open>
  C7. For a message that is empty or consists of white space only, the call returns at
  line 45: the state is the one it was called in, every hook included, and no request is
  started, so the session (state and outstanding operations) is unchanged.
\<close>

theorem blank_message_noop:
  assumes "\<forall>c\<in>set message. is_white_space c"
  shows "sendMessageToGemini s message = (s, None) \<and> submit ss message = ss"
proof -
  from assms have "trim message = []" by (simp add: trim_Nil_iff)
  then show ?thesis by (simp add: sendMessageToGemini_def submit_def)
qed

theorem blank_message_noop_witness:
  "list_all is_white_space ''   ''
   \<and> sendMessageToGemini initial_state ''   '' = (initial_state, None)
   \<and> submit initial_session ''   '' = initial_session
   \<and> list_all is_white_space ''''
   \<and> sendMessageToGemini initial_state '''' = (initial_state, None)"
  using blank_message_noop [of "''   ''" initial_state initial_session]
    blank_message_noop [of "''''" initial_state initial_session]
  by (simp add: is_white_space_def)

subsection \<open>A message that is not blank\<close>

text \<open>
  C4, as the code has it. For a message with at least one character that is not white
  space, the call appends, before it suspends, one user turn whose text is the message as
  it was passed (line 47 stores \<^verbatim>\<open>message\<close>; \<^verbatim>\<open>trim\<close> is used by the test of line 45
  only), empties the input buffer, sets the pending status, and starts one request: a POST
  whose \<^verbatim>\<open>contents\<close> has one entry per turn of the transcript, in order, the new user
  turn last.
\<close>

theorem submit_appends_and_requests:
  assumes "\<exists>c\<in>set message. \<not> is_white_space c"
    and "newChatHistory = chatHistory s @ [\<lparr>role = ''user'', msg_text = message, sources = None\<rparr>]"
  shows "sendMessageToGemini s message
           = (s\<lparr>chatHistory := newChatHistory, chatInput := [], isChatLoading := True\<rparr>,
              Some (build_request newChatHistory))
         \<and> req_method (build_request newChatHistory) = ''POST''
         \<and> contents (req_body (build_request newChatHistory))
             = map (\<lambda>t. \<lparr>c_role = role t, c_parts = [msg_text t]\<rparr>) newChatHistory
         \<and> length (contents (req_body (build_request newChatHistory))) = Suc (length (chatHistory s))
         \<and> in_flight (submit \<lparr>app = s, in_flight = fl, timers = tm\<rparr> message)
             = fl @ [build_request newChatHistory]"
proof -
  from assms(1) have "trim message \<noteq> []" by (simp add: trim_Nil_iff)
  then show ?thesis using assms(2)
    by (simp add: sendMessageToGemini_def submit_def build_request_def build_payload_def Let_def)
qed

theorem submit_appends_and_requests_witness:
  "(\<exists>c\<in>set '' hi ''. \<not> is_white_space c)
   \<and> sendMessageToGemini initial_state '' hi ''
       = (initial_state\<lparr>chatHistory := [greeting, \<lparr>role = ''user'', msg_text = '' hi '', sources = None\<rparr>],
            chatInput := [], isChatLoading := True\<rparr>,
          Some (build_request [greeting, \<lparr>role = ''user'', msg_text = '' hi '', sources = None\<rparr>]))
   \<and> map c_parts (contents (req_body (build_request [greeting, \<lparr>role = ''user'', msg_text = '' hi '', sources = None\<rparr>])))
       = [[msg_text greeting], ['' hi '']]
   \<and> length (in_flight (submit initial_session '' hi '')) = 1"
  using submit_appends_and_requests [of "'' hi ''" "[greeting, \<lparr>role = ''user'', msg_text = '' hi '', sources = None\<rparr>]" initial_state "[]" "[]"]
  by (simp add: is_white_space_def initial_state_def initial_session_def)

text \<open>
  C4, as the spec has it, fails where the message has white space at an end: for the
  message \<^verbatim>\<open>" hi "\<close> the trimmed message is \<^verbatim>\<open>"hi"\<close>, and the text of the appended
  user turn is \<^verbatim>\<open>" hi "\<close>.
\<close>

theorem user_turn_not_trimmed:
  "trim '' hi '' = ''hi''
   \<and> msg_text (last (chatHistory (fst (sendMessageToGemini initial_state '' hi '')))) = '' hi ''"
  by (simp add: trim_def is_white_space_def sendMessageToGemini_def initial_state_def Let_def)

subsection \<open>How a request settles\<close>

lemma try_block_role: "try_block hostname outcome = Inr t \<Longrightarrow> role t = ''model''"
  by (auto simp add: try_block_def
      split: fetch_outcome.splits option.splits prod.splits sum.splits if_splits)

lemma settled_shape:
  "\<exists>t. role t = ''model''
     \<and> sendMessageToGemini_settled hostname outcome s
         = Inr (s\<lparr>chatHistory := chatHistory s @ [t], isChatLoading := False\<rparr>)"
proof (cases "try_block hostname outcome")
  case (Inl e)
  then have "sendMessageToGemini_settled hostname outcome s
      = Inr (s\<lparr>chatHistory := chatHistory s @ [apology_turn], isChatLoading := False\<rparr>)"
    by (simp add: sendMessageToGemini_settled_def)
  moreover have "role apology_turn = ''model''" by (simp add: apology_turn_def)
  ultimately show ?thesis by blast
next
  case (Inr t)
  then have "sendMessageToGemini_settled hostname outcome s
      = Inr (s\<lparr>chatHistory := chatHistory s @ [t], isChatLoading := False\<rparr>)"
    by (simp add: sendMessageToGemini_settled_def)
  with try_block_role [OF Inr] show ?thesis by blast
qed

text \<open>
  C3. When \<^verbatim>\<open>fetch\<close> rejects, when the status is outside 200-299, or when the body is
  not JSON, the call appends exactly one turn, the apology turn: role \<^verbatim>\<open>model\<close>, the
  fixed apology text, no sources (the turn has no \<^verbatim>\<open>sources\<close> property, and a rendered
  turn without one lists no sources). The pending status is false afterwards. Whatever
  the outcome of the request, the call ends normally (\<open>Inr\<close>), with the pending status
  false and the transcript one turn longer.
\<close>

theorem failure_appends_apology:
  "((outcome = Rejected \<or> (\<exists>st body. outcome = Response st body \<and> (\<not> response_ok st \<or> body = None))) \<longrightarrow>
      sendMessageToGemini_settled hostname outcome s
        = Inr (s\<lparr>chatHistory := chatHistory s @ [apology_turn], isChatLoading := False\<rparr>))
   \<and> role apology_turn = ''model''
   \<and> msg_text apology_turn = ''Sorry, I hit an error connecting to the intelligence engine. Please try again.''
   \<and> sources apology_turn = None
   \<and> sources_shown apology_turn = []
   \<and> (\<exists>s'. sendMessageToGemini_settled hostname any_outcome s = Inr s' \<and> \<not> isChatLoading s'
         \<and> length (chatHistory s') = Suc (length (chatHistory s)))"
proof -
  have "sendMessageToGemini_settled hostname outcome s
        = Inr (s\<lparr>chatHistory := chatHistory s @ [apology_turn], isChatLoading := False\<rparr>)"
    if "outcome = Rejected \<or> (\<exists>st body. outcome = Response st body \<and> (\<not> response_ok st \<or> body = None))"
  proof -
    from that have "\<exists>e. try_block hostname outcome = Inl e"
      by (auto simp add: try_block_def)
    then show ?thesis by (auto simp add: sendMessageToGemini_settled_def)
  qed
  moreover have "role apology_turn = ''model''" "sources apology_turn = None"
    "sources_shown apology_turn = []"
    "msg_text apology_turn = ''Sorry, I hit an error connecting to the intelligence engine. Please try again.''"
    by (simp_all add: apology_turn_def apology_text_def)
  moreover have "\<exists>s'. sendMessageToGemini_settled hostname any_outcome s = Inr s' \<and> \<not> isChatLoading s'
         \<and> length (chatHistory s') = Suc (length (chatHistory s))"
  proof -
    obtain t where "sendMessageToGemini_settled hostname any_outcome s
        = Inr (s\<lparr>chatHistory := chatHistory s @ [t], isChatLoading := False\<rparr>)"
      using settled_shape by blast
    then show ?thesis by simp
  qed
  ultimately show ?thesis by blast
qed

theorem failure_appends_apology_witness:
  "sendMessageToGemini_settled sample_hostname (Response 503 None) (app session_hi)
     = Inr ((app session_hi)\<lparr>chatHistory := chatHistory (app session_hi) @ [apology_turn],
            isChatLoading := False\<rparr>)
   \<and> sendMessageToGemini_settled sample_hostname Rejected (app session_hi)
     = Inr ((app session_hi)\<lparr>chatHistory := chatHistory (app session_hi) @ [apology_turn],
            isChatLoading := False\<rparr>)
   \<and> sendMessageToGemini_settled sample_hostname (Response 200 None) (app session_hi)
     = Inr ((app session_hi)\<lparr>chatHistory := chatHistory (app session_hi) @ [apology_turn],
            isChatLoading := False\<rparr>)"
  using failure_appends_apology [of "Response 503 None" sample_hostname "app session_hi" Rejected]
    failure_appends_apology [of Rejected sample_hostname "app session_hi" Rejected]
    failure_appends_apology [of "Response 200 None" sample_hostname "app session_hi" Rejected]
  by (simp add: response_ok_def)

subsection \<open>Requests in flight\<close>

lemma remove_nth_single: "length xs = Suc 0 \<Longrightarrow> remove_nth 0 xs = []"
  by (cases xs) (simp_all add: remove_nth_def)

lemma step_in_flight:
  assumes "length (in_flight ss) = (if isChatLoading (app ss) then 1 else 0)"
    and "step hostname e ss = Some ss'"
  shows "length (in_flight ss') = (if isChatLoading (app ss') then 1 else 0)"
proof (cases e)
  case ChatSubmit
  with assms show ?thesis
    by (auto simp add: submit_def sendMessageToGemini_def Let_def split: if_splits)
next
  case (FetchSettles i outcome)
  obtain t where "sendMessageToGemini_settled hostname outcome (app ss)
      = Inr ((app ss)\<lparr>chatHistory := chatHistory (app ss) @ [t], isChatLoading := False\<rparr>)"
    using settled_shape by blast
  with assms FetchSettles show ?thesis
    by (auto simp add: remove_nth_single split: if_splits)
next
  case AnalyzeSubmit
  with assms show ?thesis
    by (auto simp add: handleSubmit_def Let_def split: if_splits)
qed (use assms in \<open>auto simp add: handleFileChange_def handleRemoveFile_def handleSubmit_settled_def Let_def split: if_splits\<close>)

lemma run_in_flight:
  assumes "length (in_flight ss) = (if isChatLoading (app ss) then 1 else 0)"
    and "run hostname es ss = Some ss'"
  shows "length (in_flight ss') = (if isChatLoading (app ss') then 1 else 0)"
  using assms
proof (induction es arbitrary: ss)
  case Nil
  then show ?case by simp
next
  case (Cons e es)
  then obtain ss1 where s1: "step hostname e ss = Some ss1" and r: "run hostname es ss1 = Some ss'"
    by (auto split: option.splits)
  from step_in_flight [OF Cons.prems(1) s1] Cons.IH r show ?case by blast
qed

text \<open>
  C1, as the code has it. \<^verbatim>\<open>sendMessageToGemini\<close> does not read the pending status;
  what keeps a second request from starting is the rendered form, whose submit button is
  disabled while a request is pending (line 349). In every session reached from the
  initial one by events the component offers, at most one request is in flight: one if
  the pending status is true and none otherwise, and in a pending session the form does
  not offer the submission.
\<close>

theorem form_keeps_one_request_in_flight:
  assumes "run hostname es initial_session = Some ss"
  shows "length (in_flight ss) \<le> 1
         \<and> (isChatLoading (app ss) \<longleftrightarrow> length (in_flight ss) = 1)
         \<and> (isChatLoading (app ss) \<longrightarrow> step hostname ChatSubmit ss = None)"
proof -
  have "length (in_flight initial_session) = (if isChatLoading (app initial_session) then 1 else 0)"
    by (simp add: initial_session_def initial_state_def)
  from run_in_flight [OF this assms] show ?thesis by (simp split: if_splits)
qed

theorem form_keeps_one_request_in_flight_witness:
  "run sample_hostname [OpenChat, ChatInputChange ''hi'', ChatSubmit] initial_session
     = Some session_hi
   \<and> length (in_flight session_hi) = 1
   \<and> isChatLoading (app session_hi)
   \<and> step sample_hostname ChatSubmit session_hi = None"
proof -
  have r: "run sample_hostname [OpenChat, ChatInputChange ''hi'', ChatSubmit] initial_session
     = Some session_hi"
    by (simp add: initial_session_def initial_state_def trim_def is_white_space_def session_hi_def)
  have l: "isChatLoading (app session_hi)"
    by (simp add: session_hi_def submit_def sendMessageToGemini_def trim_def is_white_space_def Let_def)
  from form_keeps_one_request_in_flight [OF r] l r show ?thesis by simp
qed

text \<open>
  C1, as the spec has it, fails: a call of the operation itself in a pending state starts
  a second request while the first is in flight. After \<^verbatim>\<open>submit("a")\<close> the pending status
  is true and one request is in flight; \<^verbatim>\<open>submit("b")\<close> in that state leaves two.
\<close>

theorem submit_while_pending_starts_second_request:
  "isChatLoading (app (submit initial_session ''a''))
   \<and> length (in_flight (submit initial_session ''a'')) = 1
   \<and> length (in_flight (submit (submit initial_session ''a'') ''b'')) = 2"
  by (simp add: submit_def sendMessageToGemini_def trim_def is_white_space_def Let_def initial_session_def)

subsection \<open>Growth of the transcript\<close>

lemma rounds_growth:
  assumes "\<forall>r\<in>set rounds. trim (fst r) \<noteq> []"
  shows "\<exists>s' ts. submit_rounds hostname rounds s = Inr s'
           \<and> chatHistory s' = chatHistory s @ ts
           \<and> map role ts = concat (replicate (length rounds) [''user'', ''model''])
           \<and> filter (\<lambda>t. role t = ''user'') ts
               = map (\<lambda>r. \<lparr>role = ''user'', msg_text = fst r, sources = None\<rparr>) rounds"
  using assms
proof (induction rounds arbitrary: s)
  case Nil
  then show ?case by simp
next
  case (Cons r rounds)
  obtain message outcome where r: "r = (message, outcome)" by (cases r)
  define u where "u = \<lparr>role = ''user'', msg_text = message, sources = None\<rparr>"
  define s1 where "s1 = s\<lparr>chatHistory := chatHistory s @ [u], chatInput := [], isChatLoading := True\<rparr>"
  from Cons.prems r have nb: "trim message \<noteq> []" by simp
  then have sync: "sendMessageToGemini s message = (s1, Some (build_request (chatHistory s @ [u])))"
    by (simp add: sendMessageToGemini_def Let_def s1_def u_def)
  obtain t where t: "role t = ''model''"
    and settled: "sendMessageToGemini_settled hostname outcome s1
        = Inr (s1\<lparr>chatHistory := chatHistory s1 @ [t], isChatLoading := False\<rparr>)"
    using settled_shape by blast
  define s2 where "s2 = s1\<lparr>chatHistory := chatHistory s1 @ [t], isChatLoading := False\<rparr>"
  from Cons.prems have "\<forall>r\<in>set rounds. trim (fst r) \<noteq> []" by simp
  from Cons.IH [OF this, of s2] obtain s' ts where
    run: "submit_rounds hostname rounds s2 = Inr s'"
    and hist: "chatHistory s' = chatHistory s2 @ ts"
    and roles: "map role ts = concat (replicate (length rounds) [''user'', ''model''])"
    and users: "filter (\<lambda>t. role t = ''user'') ts
               = map (\<lambda>r. \<lparr>role = ''user'', msg_text = fst r, sources = None\<rparr>) rounds"
    by blast
  have "submit_rounds hostname (r # rounds) s = Inr s'"
    using sync settled run by (simp add: r s2_def)
  moreover have "chatHistory s' = chatHistory s @ (u # t # ts)"
    using hist by (simp add: s2_def s1_def)
  moreover have "map role (u # t # ts) = concat (replicate (length (r # rounds)) [''user'', ''model''])"
    using roles t by (simp add: u_def)
  moreover have "filter (\<lambda>t. role t = ''user'') (u # t # ts)
               = map (\<lambda>r. \<lparr>role = ''user'', msg_text = fst r, sources = None\<rparr>) (r # rounds)"
    using users t by (simp add: u_def r)
  ultimately show ?case by blast
qed

lemma step_prefix:
  assumes "step hostname e ss = Some ss'"
  shows "prefix (chatHistory (app ss)) (chatHistory (app ss'))"
proof (cases e)
  case ChatSubmit
  with assms show ?thesis
    by (auto simp add: submit_def sendMessageToGemini_def Let_def split: if_splits)
next
  case (FetchSettles i outcome)
  obtain t where "sendMessageToGemini_settled hostname outcome (app ss)
      = Inr ((app ss)\<lparr>chatHistory := chatHistory (app ss) @ [t], isChatLoading := False\<rparr>)"
    using settled_shape by blast
  with assms FetchSettles show ?thesis
    by (auto split: if_splits)
next
  case AnalyzeSubmit
  with assms show ?thesis
    by (auto simp add: handleSubmit_def Let_def split: if_splits)
qed (use assms in \<open>auto simp add: handleFileChange_def handleRemoveFile_def handleSubmit_settled_def Let_def split: if_splits\<close>)

text \<open>
  C2. After \<open>N\<close> calls with messages that are not blank, each finished before the next
  is made, the transcript is the initial one followed by \<open>2N\<close> turns, alternately a user
  turn and a \<^verbatim>\<open>model\<close> turn, the user turns carrying the messages in the order of the
  calls; this holds whatever the outcomes of the requests, successful ones included.
  Every event of the component, and every call of the operation, leaves the transcript
  it found as a prefix of the transcript it leaves: no turn is changed or removed.
\<close>

theorem transcript_grows_by_two_per_submit:
  "((\<forall>r\<in>set rounds. \<exists>c\<in>set (fst r). \<not> is_white_space c) \<longrightarrow>
      (\<exists>s' ts. submit_rounds hostname rounds s = Inr s'
         \<and> chatHistory s' = chatHistory s @ ts
         \<and> length (chatHistory s') = length (chatHistory s) + 2 * length rounds
         \<and> map role ts = concat (replicate (length rounds) [''user'', ''model''])
         \<and> filter (\<lambda>t. role t = ''user'') ts
             = map (\<lambda>r. \<lparr>role = ''user'', msg_text = fst r, sources = None\<rparr>) rounds))
   \<and> (step hostname e ss = Some ss' \<longrightarrow> prefix (chatHistory (app ss)) (chatHistory (app ss')))
   \<and> prefix (chatHistory (app ss)) (chatHistory (app (submit ss message)))"
proof (intro conjI impI)
  assume "\<forall>r\<in>set rounds. \<exists>c\<in>set (fst r). \<not> is_white_space c"
  then have "\<forall>r\<in>set rounds. trim (fst r) \<noteq> []" by (simp add: trim_Nil_iff)
  from rounds_growth [OF this, of hostname s] obtain s' ts where
    a: "submit_rounds hostname rounds s = Inr s'" "chatHistory s' = chatHistory s @ ts"
       "map role ts = concat (replicate (length rounds) [''user'', ''model''])"
       "filter (\<lambda>t. role t = ''user'') ts
             = map (\<lambda>r. \<lparr>role = ''user'', msg_text = fst r, sources = None\<rparr>) rounds"
    by blast
  from a(3) have "length (map role ts) = 2 * length rounds"
    by (simp add: length_concat sum_list_replicate)
  then have "length (chatHistory s') = length (chatHistory s) + 2 * length rounds"
    using a(2) by simp
  with a show "\<exists>s' ts. submit_rounds hostname rounds s = Inr s'
         \<and> chatHistory s' = chatHistory s @ ts
         \<and> length (chatHistory s') = length (chatHistory s) + 2 * length rounds
         \<and> map role ts = concat (replicate (length rounds) [''user'', ''model''])
         \<and> filter (\<lambda>t. role t = ''user'') ts
             = map (\<lambda>r. \<lparr>role = ''user'', msg_text = fst r, sources = None\<rparr>) rounds"
    by blast
next
  assume "step hostname e ss = Some ss'"
  then show "prefix (chatHistory (app ss)) (chatHistory (app ss'))" by (rule step_prefix)
next
  show "prefix (chatHistory (app ss)) (chatHistory (app (submit ss message)))"
    by (simp add: submit_def sendMessageToGemini_def Let_def)
qed

theorem transcript_grows_by_two_per_submit_witness:
  "\<exists>s'. submit_rounds sample_hostname
          [(''hi'', Response 200 (Some reply_two_of_three)), (''more'', Rejected)] initial_state = Inr s'
        \<and> length (chatHistory s') = 5
        \<and> map role (chatHistory s') = [''model'', ''user'', ''model'', ''user'', ''model'']"
proof -
  have h: "\<forall>r\<in>set [(''hi'', Response 200 (Some reply_two_of_three)), (''more'', Rejected)].
             \<exists>c\<in>set (fst r). \<not> is_white_space c"
    by (simp add: is_white_space_def)
  from transcript_grows_by_two_per_submit
    [of "[(''hi'', Response 200 (Some reply_two_of_three)), (''more'', Rejected)]"
      sample_hostname initial_state OpenChat initial_session initial_session "[]"] h
  obtain s' ts where
    "submit_rounds sample_hostname
       [(''hi'', Response 200 (Some reply_two_of_three)), (''more'', Rejected)] initial_state = Inr s'"
    "chatHistory s' = chatHistory initial_state @ ts"
    "length (chatHistory s') = length (chatHistory initial_state) + 2 * length [(''hi'', Response 200 (Some reply_two_of_three)), (''more'', Rejected)]"
    "map role ts = concat (replicate (length [(''hi'', Response 200 (Some reply_two_of_three)), (''more'', Rejected)]) [''user'', ''model''])"
    by blast
  then show ?thesis
    by (simp add: initial_state_def greeting_def numeral_2_eq_2)
qed

subsection \<open>Reply and citations\<close>

lemma keeps_iff:
  "keeps x \<longleftrightarrow> (\<exists>u t. uri x = Some u \<and> u \<noteq> [] \<and> title x = Some t \<and> t \<noteq> [])"
  by (cases "uri x"; cases "title x") (simp_all add: keeps_def)

lemma extract_reply_sources:
  "snd (extract_reply r) =
     (case first_candidate r of None \<Rightarrow> []
      | Some c \<Rightarrow> if truthy (first_text c) then grounding_sources c else [])"
  by (simp add: extract_reply_def split: option.splits)

lemma extract_reply_kept: "x \<in> set (snd (extract_reply r)) \<Longrightarrow> keeps x"
  by (auto simp add: extract_reply_sources grounding_sources_def split: option.splits if_splits)

lemma extract_reply_text:
  "snd (extract_reply r) \<noteq> [] \<Longrightarrow>
     \<exists>c. first_candidate r = Some c \<and> first_text c = Some (fst (extract_reply r))
        \<and> fst (extract_reply r) \<noteq> []"
  by (cases "first_candidate r")
    (auto simp add: extract_reply_def split: if_splits elim: truthy.elims)

lemma citation_lines_ok:
  assumes "\<forall>x\<in>set srcs. hostname (to_string (uri x)) \<noteq> None"
  shows "citation_lines hostname i srcs
         = Inr (map (\<lambda>(k, x). ''['' @ nat_to_string (k + 1) @ ''] '' @ to_string (title x)
                  @ '' ('' @ the (hostname (to_string (uri x))) @ '')'') (enumerate i srcs))"
  using assms
proof (induction srcs arbitrary: i)
  case Nil
  then show ?case by simp
next
  case (Cons x srcs)
  from Cons.prems obtain h where h: "hostname (to_string (uri x)) = Some h" by auto
  from Cons.prems have "\<forall>x\<in>set srcs. hostname (to_string (uri x)) \<noteq> None" by simp
  from Cons.IH [OF this, of "Suc i"] h show ?case
    by (simp add: citation_line_def)
qed

lemma citation_lines_fail:
  assumes "x \<in> set srcs" and "hostname (to_string (uri x)) = None"
  shows "\<exists>e. citation_lines hostname i srcs = Inl e"
  using assms
proof (induction srcs arbitrary: i)
  case Nil
  then show ?case by simp
next
  case (Cons y srcs)
  show ?case
  proof (cases "citation_line hostname i y")
    case (Inl e)
    then show ?thesis by simp
  next
    case (Inr l)
    then have "hostname (to_string (uri y)) \<noteq> None"
      by (auto simp add: citation_line_def split: option.splits)
    with Cons.prems have "x \<in> set srcs" by auto
    from Cons.IH [OF this Cons.prems(2), of "Suc i"] Inr show ?thesis by auto
  qed
qed

text \<open>
  C5, as the code has it. The sources are taken inside the test of line 76: when the first
  candidate has a non-empty text, the attributions that are kept are those with a
  non-empty uri and a non-empty title, in the order of the response; when there is no
  first candidate or it has no text, no attribution is kept and the text is the fallback.
  A response with status 200-299 from which no source is kept gives one \<^verbatim>\<open>model\<close> turn
  whose sources are the empty list and whose text is the reply text alone, with no
  citation block.
\<close>

theorem sources_kept_when_text_present:
  "(first_candidate r = Some c \<and> truthy (first_text c) \<and> groundingMetadata c = Some gm
      \<and> groundingAttributions gm = Some atts \<longrightarrow>
      snd (extract_reply r)
        = filter (\<lambda>x. \<exists>u t. uri x = Some u \<and> u \<noteq> [] \<and> title x = Some t \<and> t \<noteq> [])
            (map attribution_source atts))
   \<and> (first_candidate r = Some c \<and> \<not> truthy (first_text c) \<longrightarrow> extract_reply r = (fallback_text, []))
   \<and> (first_candidate r = None \<longrightarrow> extract_reply r = (fallback_text, []))
   \<and> (response_ok st \<and> snd (extract_reply r) = [] \<longrightarrow>
        sendMessageToGemini_settled hostname (Response st (Some r)) s
          = Inr (s\<lparr>chatHistory := chatHistory s @
                    [\<lparr>role = ''model'', msg_text = fst (extract_reply r), sources = Some []\<rparr>],
                  isChatLoading := False\<rparr>))"
proof (intro conjI impI)
  assume a: "first_candidate r = Some c \<and> truthy (first_text c) \<and> groundingMetadata c = Some gm
      \<and> groundingAttributions gm = Some atts"
  have "keeps = (\<lambda>x. \<exists>u t. uri x = Some u \<and> u \<noteq> [] \<and> title x = Some t \<and> t \<noteq> [])"
    by (rule ext) (rule keeps_iff)
  with a show "snd (extract_reply r)
        = filter (\<lambda>x. \<exists>u t. uri x = Some u \<and> u \<noteq> [] \<and> title x = Some t \<and> t \<noteq> [])
            (map attribution_source atts)"
    by (simp add: extract_reply_sources grounding_sources_def)
next
  assume "first_candidate r = Some c \<and> \<not> truthy (first_text c)"
  then show "extract_reply r = (fallback_text, [])" by (simp add: extract_reply_def)
next
  assume "first_candidate r = None"
  then show "extract_reply r = (fallback_text, [])" by (simp add: extract_reply_def)
next
  assume a: "response_ok st \<and> snd (extract_reply r) = []"
  then have "extract_reply r = (fst (extract_reply r), [])" by (metis prod.collapse)
  then have "try_block hostname (Response st (Some r))
      = Inr \<lparr>role = ''model'', msg_text = fst (extract_reply r), sources = Some []\<rparr>"
    using a by (cases "extract_reply r") (simp add: try_block_def full_response_def)
  then show "sendMessageToGemini_settled hostname (Response st (Some r)) s
          = Inr (s\<lparr>chatHistory := chatHistory s @
                    [\<lparr>role = ''model'', msg_text = fst (extract_reply r), sources = Some []\<rparr>],
                  isChatLoading := False\<rparr>)"
    by (simp add: sendMessageToGemini_settled_def)
qed

theorem sources_kept_when_text_present_witness:
  "extract_reply reply_two_of_three = (''Hello'', [src_jobs, src_careers])
   \<and> extract_reply reply_no_text = (fallback_text, [])
   \<and> sendMessageToGemini_settled sample_hostname (Response 200 (Some reply_none_kept)) initial_state
       = Inr (initial_state\<lparr>chatHistory := chatHistory initial_state @
                [\<lparr>role = ''model'', msg_text = ''Hello'', sources = Some []\<rparr>],
              isChatLoading := False\<rparr>)"
proof -
  have a: "snd (extract_reply reply_two_of_three) = [src_jobs, src_careers]"
    using sources_kept_when_text_present
      [where r = reply_two_of_three
         and c = "sample_candidate (Some ''Hello'') [src_jobs, src_no_title, src_careers]"
         and gm = "sample_metadata [src_jobs, src_no_title, src_careers]"
         and atts = "map (\<lambda>w. \<lparr>web = Some w\<rparr>) [src_jobs, src_no_title, src_careers]"]
    by (simp add: reply_two_of_three_def sample_result_def sample_candidate_def
        sample_metadata_def first_candidate_def first_text_def attribution_source_def
        src_jobs_def src_no_title_def src_careers_def)
  have b: "fst (extract_reply reply_two_of_three) = ''Hello''"
    by (simp add: reply_two_of_three_def sample_result_def sample_candidate_def
        extract_reply_def first_candidate_def first_text_def)
  have c: "extract_reply reply_no_text = (fallback_text, [])"
    using sources_kept_when_text_present
      [where r = reply_no_text and c = "sample_candidate None [src_jobs, src_careers]"]
    by (simp add: reply_no_text_def sample_result_def sample_candidate_def
        first_candidate_def first_text_def)
  have d: "extract_reply reply_none_kept = (''Hello'', [])"
    by (simp add: reply_none_kept_def sample_result_def sample_candidate_def
        sample_metadata_def extract_reply_def first_candidate_def first_text_def
        grounding_sources_def attribution_source_def keeps_def src_no_title_def)
  have e: "sendMessageToGemini_settled sample_hostname (Response 200 (Some reply_none_kept)) initial_state
       = Inr (initial_state\<lparr>chatHistory := chatHistory initial_state @
                [\<lparr>role = ''model'', msg_text = ''Hello'', sources = Some []\<rparr>],
              isChatLoading := False\<rparr>)"
    using sources_kept_when_text_present
      [where r = reply_none_kept and st = 200 and hostname = sample_hostname and s = initial_state] d
    by (simp add: response_ok_def)
  from a b c e show ?thesis by (metis prod.collapse)
qed

text \<open>
  C5, as the spec has it, fails on a response without text: both attributions of
  \<open>reply_no_text\<close> have a non-empty uri and a non-empty title, and none of them is kept.
\<close>

theorem attributions_dropped_without_text:
  "keeps (attribution_source \<lparr>web = Some src_jobs\<rparr>)
   \<and> keeps (attribution_source \<lparr>web = Some src_careers\<rparr>)
   \<and> first_text (sample_candidate None [src_jobs, src_careers]) = None
   \<and> snd (extract_reply reply_no_text) = []"
  by (simp add: reply_no_text_def sample_result_def sample_candidate_def sample_metadata_def
      extract_reply_def first_candidate_def first_text_def attribution_source_def keeps_def
      src_jobs_def src_careers_def)

text \<open>
  C6, as the code has it. For a response with status 200-299 from which at least one
  source is kept and in which the uri of every kept source is one that \<^verbatim>\<open>new URL\<close>
  accepts, the appended \<^verbatim>\<open>model\<close> turn has the kept sources and its text is the reply
  text, the header \<^verbatim>\<open>**Sources:**\<close> after an empty line, and one line per kept source,
  in order: \<^verbatim>\<open>[i] title (hostname)\<close>, with \<open>i\<close> counted from 1.
\<close>

theorem citation_block_appended:
  assumes "response_ok st"
    and "extract_reply r = (responseText, srcs)"
    and "srcs \<noteq> []"
    and "\<forall>x\<in>set srcs. hostname (to_string (uri x)) \<noteq> None"
    and "cite_lines = map (\<lambda>(i, x). ''['' @ nat_to_string (i + 1) @ ''] '' @ to_string (title x)
                  @ '' ('' @ the (hostname (to_string (uri x))) @ '')'') (enumerate 0 srcs)"
  shows "sendMessageToGemini_settled hostname (Response st (Some r)) s
           = Inr (s\<lparr>chatHistory := chatHistory s @
                     [\<lparr>role = ''model'',
                       msg_text = responseText @ ''\<newline>\<newline>**Sources:**\<newline>'' @ join ''\<newline>'' cite_lines,
                       sources = Some srcs\<rparr>],
                   isChatLoading := False\<rparr>)
         \<and> length cite_lines = length srcs
         \<and> (\<forall>x\<in>set srcs. \<exists>u t. uri x = Some u \<and> u \<noteq> [] \<and> title x = Some t \<and> t \<noteq> [])"
proof -
  have "citation_lines hostname 0 srcs = Inr cite_lines"
    using citation_lines_ok [OF assms(4), of 0] assms(5) by simp
  then have "full_response hostname responseText srcs
      = Inr (responseText @ ''\<newline>\<newline>**Sources:**\<newline>'' @ join ''\<newline>'' cite_lines)"
    using assms(3) by (simp add: full_response_def sources_header_def)
  then have "try_block hostname (Response st (Some r))
      = Inr \<lparr>role = ''model'',
             msg_text = responseText @ ''\<newline>\<newline>**Sources:**\<newline>'' @ join ''\<newline>'' cite_lines,
             sources = Some srcs\<rparr>"
    using assms(1,2) by (simp add: try_block_def)
  then have a: "sendMessageToGemini_settled hostname (Response st (Some r)) s
           = Inr (s\<lparr>chatHistory := chatHistory s @
                     [\<lparr>role = ''model'',
                       msg_text = responseText @ ''\<newline>\<newline>**Sources:**\<newline>'' @ join ''\<newline>'' cite_lines,
                       sources = Some srcs\<rparr>],
                   isChatLoading := False\<rparr>)"
    by (simp add: sendMessageToGemini_settled_def)
  have b: "length cite_lines = length srcs" using assms(5) by simp
  have "\<forall>x\<in>set srcs. keeps x"
    using extract_reply_kept [of _ r] assms(2) by simp
  then have c: "\<forall>x\<in>set srcs. \<exists>u t. uri x = Some u \<and> u \<noteq> [] \<and> title x = Some t \<and> t \<noteq> []"
    by (simp add: keeps_iff)
  from a b c show ?thesis by blast
qed

theorem citation_block_appended_witness:
  "extract_reply reply_two_of_three = (''Hello'', [src_jobs, src_careers])
   \<and> sendMessageToGemini_settled sample_hostname (Response 200 (Some reply_two_of_three)) initial_state
       = Inr (initial_state\<lparr>chatHistory := chatHistory initial_state @
                [\<lparr>role = ''model'',
                  msg_text = ''Hello\<newline>\<newline>**Sources:**\<newline>[1] Jobs (example.com)\<newline>[2] Careers (careers.example.org)'',
                  sources = Some [src_jobs, src_careers]\<rparr>],
              isChatLoading := False\<rparr>)"
proof -
  have h1: "response_ok 200" by (simp add: response_ok_def)
  have h2: "extract_reply reply_two_of_three = (''Hello'', [src_jobs, src_careers])"
    by (simp add: reply_two_of_three_def sample_result_def sample_candidate_def
        sample_metadata_def extract_reply_def first_candidate_def first_text_def
        grounding_sources_def attribution_source_def keeps_def
        src_jobs_def src_no_title_def src_careers_def)
  have h3: "[src_jobs, src_careers] \<noteq> []" by simp
  have h4: "\<forall>x\<in>set [src_jobs, src_careers]. sample_hostname (to_string (uri x)) \<noteq> None"
    by (simp add: src_jobs_def src_careers_def sample_hostname_def)
  have l: "map (\<lambda>(i, x). ''['' @ nat_to_string (i + 1) @ ''] '' @ to_string (title x)
                  @ '' ('' @ the (sample_hostname (to_string (uri x))) @ '')'')
             (enumerate 0 [src_jobs, src_careers])
           = [''[1] Jobs (example.com)'', ''[2] Careers (careers.example.org)'']"
    by (simp add: src_jobs_def src_careers_def sample_hostname_def digit_char_def)
  from citation_block_appended
    [where hostname = sample_hostname and s = initial_state, OF h1 h2 h3 h4 refl] h2
  show ?thesis
    by (simp only: l) simp
qed

text \<open>
  C6, as the spec has it, fails where the uri of a kept source is not a URL: the only
  attribution of \<open>reply_bad_only\<close> is kept, and the text of the appended turn is the
  apology text, which ends with no citation block.
\<close>

theorem kept_source_without_citation_block:
  "extract_reply reply_bad_only = (''Apply early.'', [src_bad_uri])
   \<and> sample_hostname ''not a url'' = None
   \<and> sendMessageToGemini_settled sample_hostname (Response 200 (Some reply_bad_only)) initial_state
       = Inr (initial_state\<lparr>chatHistory := chatHistory initial_state @ [apology_turn],
              isChatLoading := False\<rparr>)"
  by (simp add: reply_bad_only_def sample_result_def sample_candidate_def
      sample_metadata_def extract_reply_def first_candidate_def first_text_def
      grounding_sources_def attribution_source_def keeps_def src_bad_uri_def
      sample_hostname_def sendMessageToGemini_settled_def try_block_def response_ok_def
      full_response_def citation_line_def)

text \<open>
  C9. When the response has status 200-299, its first candidate has a text, and some kept
  source has a uri that \<^verbatim>\<open>new URL\<close> rejects, the exception of line 94 reaches the
  \<^verbatim>\<open>catch\<close> of line 99: the turn that is appended is the apology turn, so the reply text
  and the other sources are lost with the bad one. Such responses exist:
  \<open>reply_good_and_bad\<close> is one.
\<close>

theorem unparseable_uri_discards_reply:
  assumes "response_ok st"
    and "extract_reply r = (responseText, srcs)"
    and "x \<in> set srcs"
    and "hostname (to_string (uri x)) = None"
  shows "sendMessageToGemini_settled hostname (Response st (Some r)) s
           = Inr (s\<lparr>chatHistory := chatHistory s @ [apology_turn], isChatLoading := False\<rparr>)
         \<and> (\<exists>c. first_candidate r = Some c \<and> first_text c = Some responseText \<and> responseText \<noteq> [])
         \<and> keeps x"
proof -
  from assms(3) have ne: "srcs \<noteq> []" by auto
  obtain e where "citation_lines hostname 0 srcs = Inl e"
    using citation_lines_fail [of x srcs hostname 0] assms(3,4) by blast
  then have "full_response hostname responseText srcs = Inl e"
    using ne by (simp add: full_response_def)
  then have "try_block hostname (Response st (Some r)) = Inl e"
    using assms(1,2) by (simp add: try_block_def)
  then have a: "sendMessageToGemini_settled hostname (Response st (Some r)) s
           = Inr (s\<lparr>chatHistory := chatHistory s @ [apology_turn], isChatLoading := False\<rparr>)"
    by (simp add: sendMessageToGemini_settled_def)
  have b: "\<exists>c. first_candidate r = Some c \<and> first_text c = Some responseText \<and> responseText \<noteq> []"
    using extract_reply_text [of r] assms(2) ne by simp
  have c: "keeps x" using extract_reply_kept [of x r] assms(2,3) by simp
  from a b c show ?thesis by blast
qed

theorem unparseable_uri_discards_reply_witness:
  "extract_reply reply_good_and_bad = (''Hello'', [src_jobs, src_bad_uri])
   \<and> sample_hostname (to_string (uri src_bad_uri)) = None
   \<and> sendMessageToGemini_settled sample_hostname (Response 200 (Some reply_good_and_bad)) (app session_hi)
       = Inr ((app session_hi)\<lparr>chatHistory := chatHistory (app session_hi) @ [apology_turn],
              isChatLoading := False\<rparr>)"
proof -
  have h1: "response_ok 200" by (simp add: response_ok_def)
  have h2: "extract_reply reply_good_and_bad = (''Hello'', [src_jobs, src_bad_uri])"
    by (simp add: reply_good_and_bad_def sample_result_def sample_candidate_def
        sample_metadata_def extract_reply_def first_candidate_def first_text_def
        grounding_sources_def attribution_source_def keeps_def src_jobs_def src_bad_uri_def)
  have h3: "src_bad_uri \<in> set [src_jobs, src_bad_uri]" by simp
  have h4: "sample_hostname (to_string (uri src_bad_uri)) = None"
    by (simp add: src_bad_uri_def sample_hostname_def)
  from unparseable_uri_discards_reply
    [where hostname = sample_hostname and s = "app session_hi", OF h1 h2 h3 h4] h2 h4
  show ?thesis by simp
qed

subsection \<open>The mock analysis\<close>

text \<open>
  C8. When the skills text is empty or white space only and no file is selected, the call
  ends at line 132 with the validation message as the error: no recommendations, no
  summary, no timer, and the loading status as it was. When the skills text is not blank
  and no file is selected, the call sets the loading status and starts the timer of 2000
  ms; when the timer fires, the recommendations are the six fixed ones, the summary is
  \<^verbatim>\<open>[From Textbox: T] + [From Resume: M]\<close> with \<open>T\<close> the trimmed skills text and \<open>M\<close> the
  fixed resume skills, and the loading status is false.
\<close>

theorem analyze_validation_and_result:
  "((\<forall>c\<in>set (skillsText s). is_white_space c) \<and> resumeFile s = None \<longrightarrow>
      handleSubmit s
        = (s\<lparr>error := Some validation_message, recommendations := [], skillsUsed := []\<rparr>, None))
   \<and> ((\<exists>c\<in>set (skillsText s). \<not> is_white_space c) \<and> resumeFile s = None \<longrightarrow>
        handleSubmit s
          = (s\<lparr>error := None, recommendations := [], skillsUsed := [], isLoading := True\<rparr>,
             Some \<lparr>delay_ms = 2000, closed_skillsText = skillsText s\<rparr>)
        \<and> handleSubmit_settled \<lparr>delay_ms = 2000, closed_skillsText = skillsText s\<rparr> s2
          = s2\<lparr>recommendations := MOCK_RECOMMENDATIONS,
               skillsUsed := ''[From Textbox: '' @ trim (skillsText s) @ ''] + [From Resume: ''
                   @ MOCK_SKILLS_FROM_RESUME @ '']'',
               isLoading := False\<rparr>
        \<and> length MOCK_RECOMMENDATIONS = 6)"
proof (intro conjI impI)
  assume "(\<forall>c\<in>set (skillsText s). is_white_space c) \<and> resumeFile s = None"
  then have "trim (skillsText s) = []" "resumeFile s = None" by (simp_all add: trim_Nil_iff)
  then show "handleSubmit s
        = (s\<lparr>error := Some validation_message, recommendations := [], skillsUsed := []\<rparr>, None)"
    by (simp add: handleSubmit_def Let_def)
next
  assume "(\<exists>c\<in>set (skillsText s). \<not> is_white_space c) \<and> resumeFile s = None"
  then have nb: "trim (skillsText s) \<noteq> []" by (simp add: trim_Nil_iff)
  then show "handleSubmit s
          = (s\<lparr>error := None, recommendations := [], skillsUsed := [], isLoading := True\<rparr>,
             Some \<lparr>delay_ms = 2000, closed_skillsText = skillsText s\<rparr>)"
    by (simp add: handleSubmit_def Let_def)
  from nb show "handleSubmit_settled \<lparr>delay_ms = 2000, closed_skillsText = skillsText s\<rparr> s2
          = s2\<lparr>recommendations := MOCK_RECOMMENDATIONS,
               skillsUsed := ''[From Textbox: '' @ trim (skillsText s) @ ''] + [From Resume: ''
                   @ MOCK_SKILLS_FROM_RESUME @ '']'',
               isLoading := False\<rparr>"
    by (simp add: handleSubmit_settled_def Let_def)
  show "length MOCK_RECOMMENDATIONS = 6" by (simp add: MOCK_RECOMMENDATIONS_def)
qed

theorem analyze_validation_and_result_witness:
  "handleSubmit initial_state = (initial_state\<lparr>error := Some validation_message\<rparr>, None)
   \<and> handleSubmit (initial_state\<lparr>skillsText := ''   ''\<rparr>)
       = (initial_state\<lparr>skillsText := ''   '', error := Some validation_message\<rparr>, None)
   \<and> handleSubmit (initial_state\<lparr>skillsText := ''Python, SQL''\<rparr>)
       = (initial_state\<lparr>skillsText := ''Python, SQL'', isLoading := True\<rparr>,
          Some \<lparr>delay_ms = 2000, closed_skillsText = ''Python, SQL''\<rparr>)
   \<and> handleSubmit_settled \<lparr>delay_ms = 2000, closed_skillsText = ''Python, SQL''\<rparr>
        (initial_state\<lparr>skillsText := ''Python, SQL'', isLoading := True\<rparr>)
       = initial_state\<lparr>skillsText := ''Python, SQL'', recommendations := MOCK_RECOMMENDATIONS,
           skillsUsed := ''[From Textbox: Python, SQL] + [From Resume: '' @ MOCK_SKILLS_FROM_RESUME @ '']''\<rparr>"
proof -
  have t: "trim ''Python, SQL'' = ''Python, SQL''"
    by (simp add: trim_def is_white_space_def)
  have a: "handleSubmit initial_state = (initial_state\<lparr>error := Some validation_message\<rparr>, None)"
    using analyze_validation_and_result [of initial_state initial_state]
    by (simp add: initial_state_def)
  have b: "handleSubmit (initial_state\<lparr>skillsText := ''   ''\<rparr>)
       = (initial_state\<lparr>skillsText := ''   '', error := Some validation_message\<rparr>, None)"
    using analyze_validation_and_result [of "initial_state\<lparr>skillsText := ''   ''\<rparr>" initial_state]
    by (simp add: initial_state_def is_white_space_def)
  have c: "handleSubmit (initial_state\<lparr>skillsText := ''Python, SQL''\<rparr>)
       = (initial_state\<lparr>skillsText := ''Python, SQL'', isLoading := True\<rparr>,
          Some \<lparr>delay_ms = 2000, closed_skillsText = ''Python, SQL''\<rparr>)
     \<and> handleSubmit_settled \<lparr>delay_ms = 2000, closed_skillsText = ''Python, SQL''\<rparr>
        (initial_state\<lparr>skillsText := ''Python, SQL'', isLoading := True\<rparr>)
       = initial_state\<lparr>skillsText := ''Python, SQL'', recommendations := MOCK_RECOMMENDATIONS,
           skillsUsed := ''[From Textbox: Python, SQL] + [From Resume: '' @ MOCK_SKILLS_FROM_RESUME @ '']''\<rparr>"
    using analyze_validation_and_result [of "initial_state\<lparr>skillsText := ''Python, SQL''\<rparr>"
        "initial_state\<lparr>skillsText := ''Python, SQL'', isLoading := True\<rparr>"] t
    by (simp add: initial_state_def is_white_space_def)
  from a b c show ?thesis by blast
qed

text \<open>
  C10. Every call of \<^verbatim>\<open>handleSubmit\<close> leaves, when it suspends or returns, no
  recommendations and no summary, and of the error only what the call itself has set: the
  validation message if the skills text is blank and no file is selected, nothing
  otherwise. The same holds for the submission of the analysis form wherever the
  component offers it. So a submission that fails validation erases the result of an
  earlier analysis.
\<close>

theorem analyze_clears_first:
  "recommendations (fst (handleSubmit s)) = []
   \<and> skillsUsed (fst (handleSubmit s)) = []
   \<and> error (fst (handleSubmit s))
       = (if trim (skillsText s) = [] \<and> resumeFile s = None then Some validation_message else None)
   \<and> (isLoading (app ss) \<or> (\<exists>ss'. step hostname AnalyzeSubmit ss = Some ss'
         \<and> recommendations (app ss') = [] \<and> skillsUsed (app ss') = []))"
  by (auto simp add: handleSubmit_def Let_def split: prod.splits option.splits)

theorem analyze_clears_first_witness:
  "recommendations analysed_state = MOCK_RECOMMENDATIONS
   \<and> skillsUsed analysed_state = MOCK_SKILLS_FROM_RESUME
   \<and> error analysed_state = Some ''old''
   \<and> recommendations (fst (handleSubmit analysed_state)) = []
   \<and> skillsUsed (fst (handleSubmit analysed_state)) = []
   \<and> error (fst (handleSubmit analysed_state)) = Some validation_message"
  using analyze_clears_first [of analysed_state "\<lparr>app = analysed_state, in_flight = [], timers = []\<rparr>" sample_hostname]
  by (simp add: analysed_state_def initial_state_def trim_def)

end
